theory Spec2Isabelle
  imports Complex_Main
begin

section \<open>Vectors, arrays and Python-level helpers\<close>

text \<open>
  The module under study is \<^verbatim>\<open>abr_control/controllers/signals/dynamics_adaptation.py\<close>.
  Floating-point numbers are modelled by the reals, one-dimensional numpy arrays by lists,
  and two-dimensional arrays by their shape together with their rows.
\<close>

type_synonym vec = "real list"

datatype py_error =
    TypeError
  | IndexError
  | KeyError
  | AttributeError
  | ImportError
  | IOError
  | ValidationError
  | Exception string

text \<open>\<^verbatim>\<open>xs[i]\<close> for a list and a non-negative index.\<close>

definition py_index :: "'a list \<Rightarrow> nat \<Rightarrow> py_error + 'a" where
  "py_index xs i = (if i < length xs then Inr (xs ! i) else Inl IndexError)"

text \<open>\<^verbatim>\<open>np.linalg.norm(x)\<close> of a one-dimensional array: the Euclidean norm.\<close>

definition linalg_norm :: "vec \<Rightarrow> real" where
  "linalg_norm x = sqrt (\<Sum>v\<leftarrow>x. v\<^sup>2)"


datatype ndarray2 = Array2 (nrows: nat) (ncols: nat) (entries: "real list list")

definition shape :: "ndarray2 \<Rightarrow> nat \<times> nat" where
  "shape a = (nrows a, ncols a)"

definition np_zeros :: "nat \<times> nat \<Rightarrow> ndarray2" where
  "np_zeros sh = Array2 (fst sh) (snd sh) (replicate (fst sh) (replicate (snd sh) 0))"

definition np_T :: "ndarray2 \<Rightarrow> ndarray2" where
  "np_T a = Array2 (ncols a) (nrows a)
              (map (\<lambda>j. map (\<lambda>r. r ! j) (entries a)) [0..<ncols a])"

definition allclose_zero :: "ndarray2 \<Rightarrow> bool" where
  "allclose_zero a = list_all (list_all (\<lambda>v. v = 0)) (entries a)"

section \<open>The host environment\<close>

text \<open>
  A weights file is an \<^verbatim>\<open>.npz\<close> archive: named arrays. The array stored under
  \<^verbatim>\<open>'weights'\<close> is indexed twice before it is used as a matrix, so it is a sequence
  of snapshots, each snapshot a sequence of matrices.
\<close>

type_synonym npz = "string \<rightharpoonup> ndarray2 list list"

record env =
  files :: "string \<rightharpoonup> npz"
  nengolib_installed :: bool
  nengo_ocl_installed :: bool
  pyopencl_installed :: bool
  nengo_spinnaker_installed :: bool

text \<open>\<^verbatim>\<open>os.path.isfile\<close>: the empty path never denotes a file.\<close>

definition isfile :: "env \<Rightarrow> string \<Rightarrow> bool" where
  "isfile e p = (p \<noteq> [] \<and> files e p \<noteq> None)"

section \<open>Error gating and the error connection\<close>

text \<open>
  \<^verbatim>\<open>gate_error\<close>, lines 174 to 180. The in-place division \<^verbatim>\<open>x /= np.linalg.norm(x) * 0.5\<close>
  divides every component by the product \<^verbatim>\<open>norm * 0.5\<close>.
\<close>

definition gate_error :: "bool \<Rightarrow> vec \<Rightarrow> vec" where
  "gate_error filter_error x =
     (if filter_error then
        (if linalg_norm x > 2.0 then map (\<lambda>v. v / (linalg_norm x * 0.5)) x else x)
      else x)"

text \<open>
  The connection from \<^verbatim>\<open>u_input\<close> to the learning rule (lines 181 to 185) carries a
  function and a scalar transform; the function is applied to the source value and the
  transform to the function's result. The synapse then low-pass filters that signal over
  simulation time.
\<close>

record error_connection =
  conn_transform :: real
  conn_function :: "vec \<Rightarrow> vec"
  conn_synapse :: real

definition error_conn :: "bool \<Rightarrow> error_connection" where
  "error_conn filter_error =
     \<lparr>conn_transform = - 1, conn_function = gate_error filter_error, conn_synapse = 0.01\<rparr>"

definition conn_signal :: "error_connection \<Rightarrow> vec \<Rightarrow> vec" where
  "conn_signal c x = map (\<lambda>v. conn_transform c * v) (conn_function c x)"

section \<open>The feedback encoder\<close>


record robot_config =
  N_JOINTS :: nat
  scaledown :: "string \<Rightarrow> vec \<Rightarrow> vec"


section \<open>The intercept distribution\<close>

text \<open>
  \<^verbatim>\<open>scipy.special.betaincinv\<close> is a library function; \<^verbatim>\<open>AreaIntercepts.transform\<close>
  (lines 275 to 281) is modelled over any function \<open>betaincinv\<close> in its place.
\<close>

type_synonym betaincinv_fn = "real \<Rightarrow> real \<Rightarrow> real \<Rightarrow> real"

definition transform :: "betaincinv_fn \<Rightarrow> nat \<Rightarrow> real \<Rightarrow> real" where
  "transform betaincinv dimensions x =
     (let (x', sign) = (if x > 0 then (- x, - 1) else (x, 1))
      in sign * sqrt (1 - betaincinv ((real dimensions + 1) / 2.0) 0.5 (x' + 1)))"

text \<open>
  The loop of \<^verbatim>\<open>AreaIntercepts.sample\<close> (lines 285 and 286), over the samples \<open>s\<close> already
  drawn from the base distribution: \<open>i\<close> is the loop index and the third argument counts
  the iterations that remain.
\<close>

fun sample_loop :: "betaincinv_fn \<Rightarrow> nat \<Rightarrow> nat \<Rightarrow> nat \<Rightarrow> vec \<Rightarrow> vec" where
  "sample_loop b d i 0 s = s"
| "sample_loop b d i (Suc k) s = sample_loop b d (Suc i) k (s[i := transform b d (s ! i)])"

definition sample :: "betaincinv_fn \<Rightarrow> nat \<Rightarrow> vec \<Rightarrow> vec" where
  "sample b d s = sample_loop b d 0 (length s) s"

text \<open>
  For first parameter \<open>a = 1\<close> the regularised incomplete beta function is
  \<open>I\<^sub>x(1, b) = 1 - (1 - x)\<^sup>b\<close>, whose inverse in \<open>x\<close> is \<open>1 - (1 - y)\<^bsup>1/b\<^esup>\<close>. This is the
  function \<^verbatim>\<open>betaincinv\<close> computes when \<open>dimensions = 1\<close>.
\<close>

definition betaincinv_a1 :: betaincinv_fn where
  "betaincinv_a1 a b y = 1 - (1 - y) powr (1 / b)"

text \<open>The formula of the written specification, for comparison.\<close>

definition spec_transform :: "betaincinv_fn \<Rightarrow> nat \<Rightarrow> real \<Rightarrow> real" where
  "spec_transform betaincinv d x =
     sgn x * sqrt (1 - betaincinv ((real d + 1) / 2) 0.5 \<bar>x\<bar>)"

section \<open>Construction of the adaptive module\<close>

datatype uniform = Uniform real real

datatype area_intercepts = AreaIntercepts (ai_dimensions: nat) (ai_base: uniform)

text \<open>
  The local variable \<^verbatim>\<open>intercepts\<close> holds the constructor argument, a sequence of floats,
  until line 116 assigns the distribution object to it.
\<close>

datatype intercepts_value = Bounds "real list" | Area area_intercepts

text \<open>\<^verbatim>\<open>intercepts[k]\<close>: the class \<^verbatim>\<open>AreaIntercepts\<close> defines no item access.\<close>

fun intercepts_getitem :: "intercepts_value \<Rightarrow> nat \<Rightarrow> py_error + real" where
  "intercepts_getitem (Bounds xs) k = py_index xs k"
| "intercepts_getitem (Area a) k = Inl TypeError"

datatype neuron_type = LIF | LIFRate

text \<open>
  Encoder placements: \<open>UniformHypersphere\<close> is the independent random placement an
  ensemble is created with; \<open>ScatteredHypersphere\<close> is the evenly scattered one.
\<close>

datatype encoder_dist = UniformHypersphere | ScatteredHypersphere bool

record ensemble =
  ens_n_neurons :: nat
  ens_dimensions :: nat
  ens_intercepts :: area_intercepts
  ens_neuron_type :: neuron_type
  encoders :: encoder_dist

text \<open>
  The constructors of the nengo library check their arguments when the network is put
  together, and raise \<^verbatim>\<open>ValidationError\<close>: an ensemble needs at least one neuron and at
  least one dimension.
\<close>

definition nengo_Ensemble ::
  "nat \<Rightarrow> nat \<Rightarrow> area_intercepts \<Rightarrow> neuron_type \<Rightarrow> py_error + ensemble" where
  "nengo_Ensemble neurons dims icpts ntype =
     (if 1 \<le> neurons \<and> 1 \<le> dims
      then Inr \<lparr>ens_n_neurons = neurons, ens_dimensions = dims,
                ens_intercepts = icpts, ens_neuron_type = ntype,
                encoders = UniformHypersphere\<rparr>
      else Inl ValidationError)"

text \<open>
  A learning connection holds the PES learning rate and a matrix: the transform of a
  connection from the neurons (\<open>NeuronsConn\<close>), or the fixed weights of the
  \<^verbatim>\<open>DummySolver\<close> of a connection from the ensemble (\<open>SolverConn\<close>).
\<close>

datatype learn_connection =
    NeuronsConn real ndarray2
  | SolverConn real ndarray2

text \<open>\<^verbatim>\<open>nengo.PES(learning_rate)\<close>: the learning rate must not be negative.\<close>

definition nengo_PES :: "real \<Rightarrow> py_error + real" where
  "nengo_PES rate = (if 0 \<le> rate then Inr rate else Inl ValidationError)"

text \<open>
  Lines 158 to 171. A two-dimensional transform of a connection from the \<open>n\<close> neurons of
  an ensemble to the output node of size \<open>N_JOINTS\<close> must have shape \<open>(N_JOINTS, n)\<close>. The
  \<^verbatim>\<open>nengo_spinnaker\<close> branch passes no transform; its solver stores the transposed matrix
  without a check.
\<close>

definition learning_connection ::
  "string \<Rightarrow> ensemble \<Rightarrow> nat \<Rightarrow> real \<Rightarrow> ndarray2 \<Rightarrow> py_error + learn_connection" where
  "learning_connection bk ens joints rate tr =
     (case nengo_PES rate of
        Inl err \<Rightarrow> Inl err
      | Inr pes \<Rightarrow>
         (if bk = ''nengo_spinnaker'' then Inr (SolverConn pes (np_T tr))
          else if shape tr = (joints, ens_n_neurons ens) then Inr (NeuronsConn pes tr)
          else Inl ValidationError))"

record init_args =
  n_neurons :: nat
  n_adapt_pop :: int
  pes_learning_rate :: real
  intercepts :: "real list"
  spiking :: bool
  filter_error :: bool
  weights_file :: "string list option"
  backend :: string
  use_dq :: bool

definition default_args :: init_args where
  "default_args =
     \<lparr>n_neurons = 1000, n_adapt_pop = 1, pes_learning_rate = 1 / 1000000,
      intercepts = [0.5, 1.0], spiking = False, filter_error = False,
      weights_file = None, backend = ''nengo'', use_dq = False\<rparr>"

text \<open>\<^verbatim>\<open>np.load\<close> of a path.\<close>

definition np_load :: "env \<Rightarrow> string \<Rightarrow> py_error + npz" where
  "np_load e path = (case files e path of None \<Rightarrow> Inl IOError | Some ar \<Rightarrow> Inr ar)"

text \<open>
  Lines 147 to 156: \<^verbatim>\<open>np.load(path)['weights'][-1][0]\<close> when the path is a file,
  \<^verbatim>\<open>np.zeros((n_neurons, N_JOINTS)).T\<close> otherwise.
\<close>

definition initial_transform :: "env \<Rightarrow> string \<Rightarrow> nat \<Rightarrow> nat \<Rightarrow> py_error + ndarray2" where
  "initial_transform e path neurons joints =
     (if isfile e path then
        (case np_load e path of
           Inl err \<Rightarrow> Inl err
         | Inr ar \<Rightarrow>
            (case ar ''weights'' of
               None \<Rightarrow> Inl KeyError
             | Some snaps \<Rightarrow>
                (if snaps = [] then Inl IndexError
                 else py_index (last snaps) 0)))
      else Inr (np_T (np_zeros (neurons, joints))))"

text \<open>
  Lines 132 to 139. The right-hand side \<^verbatim>\<open>nengolib.stats.ScatteredHypersphere(surface=True)\<close>
  is evaluated first; with \<^verbatim>\<open>nengolib = None\<close> the attribute access raises
  \<^verbatim>\<open>AttributeError\<close>. The target of the assignment is \<^verbatim>\<open>adapt_ens\<close>, a Python list, and
  a list accepts no attribute assignment. The handler swallows \<^verbatim>\<open>AttributeError\<close>.
\<close>

definition scattered_hypersphere :: "env \<Rightarrow> py_error + encoder_dist" where
  "scattered_hypersphere e =
     (if nengolib_installed e then Inr (ScatteredHypersphere True) else Inl AttributeError)"

definition list_setattr :: "'a list \<Rightarrow> string \<Rightarrow> encoder_dist \<Rightarrow> py_error + 'a list" where
  "list_setattr xs name v = Inl AttributeError"

definition place_encoders :: "env \<Rightarrow> ensemble list \<Rightarrow> py_error + ensemble list" where
  "place_encoders e adapt_ens =
     (case (case scattered_hypersphere e of
              Inl err \<Rightarrow> Inl err
            | Inr enc \<Rightarrow> list_setattr adapt_ens ''encoders'' enc) of
        Inl err \<Rightarrow> (if err = AttributeError then Inr adapt_ens else Inl err)
      | Inr xs \<Rightarrow> Inr xs)"

record loop_state =
  cur_intercepts :: intercepts_value
  adapt_ens :: "ensemble list"
  conn_learn :: "learn_connection list"
  error_conns :: "error_connection list"

text \<open>One iteration of the loop of lines 114 to 185, for loop index \<open>ii\<close>.\<close>

definition adapt_pop_iter ::
  "env \<Rightarrow> robot_config \<Rightarrow> init_args \<Rightarrow> string list \<Rightarrow> nat \<Rightarrow> nat \<Rightarrow> loop_state
     \<Rightarrow> py_error + loop_state" where
  "adapt_pop_iter e rc a wfiles n_inputs ii st =
     (let N_DIMS = N_JOINTS rc * n_inputs in
      case intercepts_getitem (cur_intercepts st) 0 of
        Inl err \<Rightarrow> Inl err
      | Inr lo \<Rightarrow>
     (case intercepts_getitem (cur_intercepts st) 1 of
        Inl err \<Rightarrow> Inl err
      | Inr hi \<Rightarrow>
     (let icpts = AreaIntercepts N_DIMS (Uniform lo hi);
          ntype = (if spiking a then LIF else LIFRate)
      in case nengo_Ensemble (n_neurons a) N_DIMS icpts ntype of
        Inl err \<Rightarrow> Inl err
      | Inr ens \<Rightarrow>
     (case place_encoders e (adapt_ens st @ [ens]) of
        Inl err \<Rightarrow> Inl err
      | Inr enss \<Rightarrow>
     (case py_index enss ii of
        Inl err \<Rightarrow> Inl err
      | Inr ens_ii \<Rightarrow>
     (case py_index wfiles ii of
        Inl err \<Rightarrow> Inl err
      | Inr path \<Rightarrow>
     (case initial_transform e path (ens_n_neurons ens_ii) (N_JOINTS rc) of
        Inl err \<Rightarrow> Inl err
      | Inr tr \<Rightarrow>
     (case learning_connection (backend a) ens_ii (N_JOINTS rc) (pes_learning_rate a) tr of
        Inl err \<Rightarrow> Inl err
      | Inr c \<Rightarrow>
          Inr \<lparr>cur_intercepts = Area icpts,
               adapt_ens = enss,
               conn_learn = conn_learn st @ [c],
               error_conns = error_conns st @ [error_conn (filter_error a)]\<rparr>))))))))"

fun adapt_pop_loop ::
  "env \<Rightarrow> robot_config \<Rightarrow> init_args \<Rightarrow> string list \<Rightarrow> nat \<Rightarrow> nat list \<Rightarrow> loop_state
     \<Rightarrow> py_error + loop_state" where
  "adapt_pop_loop e rc a wfiles n_inputs [] st = Inr st"
| "adapt_pop_loop e rc a wfiles n_inputs (ii # iis) st =
     (case adapt_pop_iter e rc a wfiles n_inputs ii st of
        Inl err \<Rightarrow> Inl err
      | Inr st' \<Rightarrow> adapt_pop_loop e rc a wfiles n_inputs iis st')"

datatype simulator = NengoSimulator | OclSimulator | SpinnakerSimulator

text \<open>Lines 188 to 213: the simulator is chosen by the backend name.\<close>

definition make_simulator :: "env \<Rightarrow> string \<Rightarrow> py_error + simulator" where
  "make_simulator e bk =
     (if bk = ''nengo'' then Inr NengoSimulator
      else if bk = ''nengo_ocl'' then
        (if \<not> nengo_ocl_installed e
         then Inl (Exception ''Nengo OCL not installed, cannot use this backend.'')
         else if \<not> pyopencl_installed e then Inl ImportError
         else Inr OclSimulator)
      else if bk = ''nengo_spinnaker'' then
        (if \<not> nengo_spinnaker_installed e
         then Inl (Exception ''Nengo SpiNNaker not installed, cannot use this backend.'')
         else Inr SpinnakerSimulator)
      else Inl (Exception ''Invalid backend specified''))"

record dynamics_adaptation =
  da_robot_config :: robot_config
  u_adapt :: vec
  da_use_dq :: bool
  N_INPUTS :: nat
  da_adapt_ens :: "ensemble list"
  da_conn_learn :: "learn_connection list"
  da_error_conns :: "error_connection list"
  sim :: simulator
  da_backend :: string
  da_q :: "vec option"
  da_dq :: "vec option"
  training_signal :: "vec option"

text \<open>Lines 74 and 75: without a \<^verbatim>\<open>weights_file\<close> argument every path is empty.\<close>

definition weights_paths :: "init_args \<Rightarrow> string list" where
  "weights_paths a =
     (case weights_file a of
        None \<Rightarrow> replicate (nat (n_adapt_pop a)) ''''
      | Some w \<Rightarrow> w)"

text \<open>\<^verbatim>\<open>DynamicsAdaptation.__init__\<close>, lines 53 to 214.\<close>

definition DynamicsAdaptation_init ::
  "env \<Rightarrow> robot_config \<Rightarrow> init_args \<Rightarrow> py_error + dynamics_adaptation" where
  "DynamicsAdaptation_init e rc a =
     (let n_inputs = (if use_dq a then 2 else 1);
          wfiles = weights_paths a;
          st0 = \<lparr>cur_intercepts = Bounds (intercepts a), adapt_ens = [],
                 conn_learn = [], error_conns = []\<rparr>
      in case adapt_pop_loop e rc a wfiles n_inputs [0..<nat (n_adapt_pop a)] st0 of
        Inl err \<Rightarrow> Inl err
      | Inr st \<Rightarrow>
         (case make_simulator e (backend a) of
            Inl err \<Rightarrow> Inl err
          | Inr s \<Rightarrow>
              Inr \<lparr>da_robot_config = rc,
                   u_adapt = replicate (N_JOINTS rc) 0,
                   da_use_dq = use_dq a,
                   N_INPUTS = n_inputs,
                   da_adapt_ens = adapt_ens st,
                   da_conn_learn = conn_learn st,
                   da_error_conns = error_conns st,
                   sim = s,
                   da_backend = backend a,
                   da_q = (if s = SpinnakerSimulator
                           then Some (replicate (N_JOINTS rc) 0) else None),
                   da_dq = (if s = SpinnakerSimulator
                            then Some (replicate (N_JOINTS rc) 0) else None),
                   training_signal = (if s = SpinnakerSimulator
                                      then Some (replicate (N_JOINTS rc) 0) else None)\<rparr>))"

text \<open>
  \<^verbatim>\<open>generate\<close> stores its three arguments (lines 230 to 232) before the simulator is
  stepped; the node \<^verbatim>\<open>u_input\<close> returns the stored training signal.
\<close>

definition generate_store ::
  "dynamics_adaptation \<Rightarrow> vec \<Rightarrow> vec \<Rightarrow> vec \<Rightarrow> dynamics_adaptation" where
  "generate_store m q dq ts = m\<lparr>da_q := Some q, da_dq := Some dq, training_signal := Some ts\<rparr>"

definition u_input :: "dynamics_adaptation \<Rightarrow> py_error + vec" where
  "u_input m = (case training_signal m of None \<Rightarrow> Inl AttributeError | Some ts \<Rightarrow> Inr ts)"

text \<open>
  The value each error connection presents to its synapse, and through it to the PES
  learning rule, in a simulation step.
\<close>

definition learning_rule_inputs :: "dynamics_adaptation \<Rightarrow> py_error + vec list" where
  "learning_rule_inputs m =
     (case u_input m of
        Inl err \<Rightarrow> Inl err
      | Inr ts \<Rightarrow> Inr (map (\<lambda>c. conn_signal c ts) (da_error_conns m)))"

section \<open>Concrete environments and inputs\<close>

definition env0 :: env where
  "env0 = \<lparr>files = Map.empty, nengolib_installed = True, nengo_ocl_installed = False,
           pyopencl_installed = False, nengo_spinnaker_installed = False\<rparr>"

definition rc0 :: robot_config where
  "rc0 = \<lparr>N_JOINTS = 2, scaledown = (\<lambda>name v. v)\<rparr>"

definition stored_weights :: ndarray2 where
  "stored_weights = Array2 2 3 [[1, 2, 3], [4, 5, 6]]"

definition older_weights :: ndarray2 where
  "older_weights = Array2 2 3 [[0, 0, 0], [0, 0, 0]]"

definition env1 :: env where
  "env1 = env0\<lparr>files :=
     [''weights.npz'' \<mapsto> [''weights'' \<mapsto> [[older_weights], [stored_weights]]]]\<rparr>"

definition env_spinnaker :: env where
  "env_spinnaker = env0\<lparr>nengo_spinnaker_installed := True\<rparr>"

definition loaded_args :: init_args where
  "loaded_args = default_args\<lparr>n_neurons := 3, weights_file := Some [''weights.npz'']\<rparr>"

section \<open>Error gating\<close>

lemma sum_list_scale: "(\<Sum>v\<leftarrow>x. (v / s)\<^sup>2) = (\<Sum>v\<leftarrow>x. v\<^sup>2) / (s::real)\<^sup>2"
  by (induction x) (simp_all add: power_divide add_divide_distrib)

lemma norm_scale: "0 < s \<Longrightarrow> linalg_norm (map (\<lambda>v. v / s) x) = linalg_norm x / s"
  by (simp add: linalg_norm_def o_def sum_list_scale real_sqrt_divide)

lemma norm_6_8: "linalg_norm [6, 8] = 10"
proof -
  have "linalg_norm [6, 8] = sqrt (10\<^sup>2)" by (simp add: linalg_norm_def)
  then show ?thesis by simp
qed

text \<open>
  C1 (as the code has it). With gating enabled, a training-error vector whose norm exceeds
  2.0 has every component divided by \<open>norm * 0.5\<close>: it is multiplied by the positive factor
  \<open>2 / norm\<close>, so it keeps its direction and the gated vector has norm exactly 2.0, the
  threshold itself; a vector of norm at most 2.0 passes through unmodified.
\<close>

theorem gate_error_clamps_to_threshold:
  "(linalg_norm x > 2 \<longrightarrow>
      gate_error True x = map (\<lambda>v. v / (linalg_norm x * 0.5)) x
      \<and> gate_error True x = map (\<lambda>v. (2 / linalg_norm x) * v) x
      \<and> 0 < 2 / linalg_norm x
      \<and> linalg_norm (gate_error True x) = 2)
   \<and> (linalg_norm x \<le> 2 \<longrightarrow> gate_error True x = x)"
proof (intro conjI impI)
  assume big: "linalg_norm x > 2"
  then have s: "0 < linalg_norm x * 0.5" by simp
  show g: "gate_error True x = map (\<lambda>v. v / (linalg_norm x * 0.5)) x"
    using big by (simp add: gate_error_def)
  show "gate_error True x = map (\<lambda>v. (2 / linalg_norm x) * v) x"
    by (simp add: g)
  show "0 < 2 / linalg_norm x" using big by simp
  have "linalg_norm (gate_error True x) = linalg_norm (map (\<lambda>v. v / (linalg_norm x * 0.5)) x)"
    by (simp only: g)
  also have "\<dots> = linalg_norm x / (linalg_norm x * 0.5)"
    using s by (rule norm_scale)
  also have "\<dots> = 2" using big by simp
  finally show "linalg_norm (gate_error True x) = 2" .
next
  assume "linalg_norm x \<le> 2"
  then show "gate_error True x = x" by (simp add: gate_error_def)
qed

theorem gate_error_clamps_to_threshold_witness:
  "linalg_norm [6, 8] > 2 \<and> gate_error True [6, 8] = [6 / 5, 8 / 5]
   \<and> linalg_norm (gate_error True [6, 8]) = 2
   \<and> linalg_norm [1] \<le> 2 \<and> gate_error True [1] = [1]"
proof -
  have a: "linalg_norm [6, 8] > 2" by (simp add: norm_6_8)
  have b: "linalg_norm [1] \<le> 2" by (simp add: linalg_norm_def)
  from gate_error_clamps_to_threshold [of "[6, 8]"] a
  have g: "gate_error True [6, 8] = map (\<lambda>v. v / (linalg_norm [6, 8] * 0.5)) [6, 8]"
    and n: "linalg_norm (gate_error True [6, 8]) = 2"
    by blast+
  from g have g': "gate_error True [6, 8] = [6 / 5, 8 / 5]" by (simp add: norm_6_8)
  from gate_error_clamps_to_threshold [of "[1]"] b
  have i: "gate_error True [1] = [1]" by blast
  from a b g' n i show ?thesis by blast
qed

text \<open>
  The claim as written fails: the vector \<open>[6, 8]\<close> has norm 10, and its gated image
  \<open>[6/5, 8/5]\<close> does not have norm 1.
\<close>

theorem gate_error_norm_counterexample:
  "linalg_norm [6, 8] = 10 \<and> gate_error True [6, 8] = [6 / 5, 8 / 5]
   \<and> linalg_norm (gate_error True [6, 8]) \<noteq> 1"
proof -
  have g: "gate_error True [6, 8] = [6 / 5, 8 / 5]"
    by (simp add: gate_error_def norm_6_8)
  have "linalg_norm [6 / 5, 8 / 5] = sqrt (2\<^sup>2)"
    by (simp add: linalg_norm_def power_divide)
  then have "linalg_norm [6 / 5, 8 / 5] = 2" by simp
  with norm_6_8 g show ?thesis by simp
qed

section \<open>The intercept transform\<close>

lemma sample_loop_map:
  "i + k = length s \<Longrightarrow>
   sample_loop b d i k s = take i s @ map (transform b d) (drop i s)"
proof (induction k arbitrary: i s)
  case 0
  then show ?case by simp
next
  case (Suc k)
  from Suc.prems have i: "i < length s" by simp
  have len: "Suc i + k = length (s[i := transform b d (s ! i)])" using Suc.prems by simp
  have "sample_loop b d i (Suc k) s
        = take (Suc i) (s[i := transform b d (s ! i)])
          @ map (transform b d) (drop (Suc i) (s[i := transform b d (s ! i)]))"
    using Suc.IH [OF len] by simp
  also have "\<dots> = take i s @ [transform b d (s ! i)] @ map (transform b d) (drop (Suc i) s)"
    using i by (simp add: take_Suc_conv_app_nth)
  also have "\<dots> = take i s @ map (transform b d) (drop i s)"
    using i by (simp add: Cons_nth_drop_Suc [symmetric])
  finally show ?case .
qed

lemma sqrt_quarter: "sqrt (1 / 4) = 1 / 2"
  by (simp add: real_sqrt_divide)

text \<open>
  C2 (as the code has it). For every dimensionality \<open>d\<close> and every base sample \<open>x\<close>, the
  transform returns \<open>- sqrt (1 - betaincinv ((d+1)/2) 0.5 (1 - |x|))\<close> for positive \<open>x\<close> and
  \<open>sqrt (1 - betaincinv ((d+1)/2) 0.5 (1 - |x|))\<close> otherwise: the sign is opposite to that of
  \<open>x\<close>, and the third argument is \<open>1 - |x|\<close>. \<open>sample\<close> applies the transform to each base
  sample independently.
\<close>

theorem transform_formula:
  "transform b d x =
     (if 0 < x then - sqrt (1 - b ((real d + 1) / 2) (1 / 2) (1 - \<bar>x\<bar>))
      else sqrt (1 - b ((real d + 1) / 2) (1 / 2) (1 - \<bar>x\<bar>)))
   \<and> sample b d s = map (transform b d) s"
proof -
  have "sample b d s = map (transform b d) s"
    using sample_loop_map [of 0 "length s" s b d] by (simp add: sample_def)
  then show ?thesis by (simp add: transform_def add.commute)
qed

theorem transform_formula_witness:
  "transform betaincinv_a1 1 (1 / 2) = - (1 / 2)
   \<and> transform betaincinv_a1 1 (- (1 / 2)) = 1 / 2
   \<and> sample betaincinv_a1 1 [1 / 2, - (1 / 2)] = [- (1 / 2), 1 / 2]"
  using transform_formula [of betaincinv_a1 1 "1 / 2" "[1 / 2, - (1 / 2)]"]
    transform_formula [of betaincinv_a1 1 "- (1 / 2)" "[]"] sqrt_quarter
  by (simp add: betaincinv_a1_def)

text \<open>
  The formula of the claim differs from the code: in one dimension the sample \<open>1/2\<close> is
  mapped to \<open>-1/2\<close> by the code and to \<open>1/2\<close> by the claimed formula, and the sample \<open>1\<close> to
  \<open>-1\<close> by the code and to \<open>0\<close> by the claimed formula.
\<close>

theorem transform_spec_counterexample:
  "transform betaincinv_a1 1 (1 / 2) = - (1 / 2)
   \<and> spec_transform betaincinv_a1 1 (1 / 2) = 1 / 2
   \<and> transform betaincinv_a1 1 1 = - 1
   \<and> spec_transform betaincinv_a1 1 1 = 0"
  using sqrt_quarter by (simp add: transform_def spec_transform_def betaincinv_a1_def)

text \<open>
  C8. For every \<open>x\<close> in the open interval (0, 1), \<open>transform (- x) = - transform x\<close>,
  whatever the dimensionality.
\<close>

theorem transform_odd:
  "0 < x \<Longrightarrow> x < 1 \<Longrightarrow> transform b d (- x) = - transform b d x"
  by (simp add: transform_def)

theorem transform_odd_witness:
  "(0::real) < 1 / 2 \<and> (1 / 2 :: real) < 1
   \<and> transform betaincinv_a1 3 (- (1 / 2)) = - transform betaincinv_a1 3 (1 / 2)"
  using transform_odd [of "1 / 2" betaincinv_a1 3] by simp

section \<open>Joint-angle wrapping\<close>






section \<open>The construction loop\<close>

lemma np_zeros_unfold: "np_zeros (r, c) = Array2 r c (replicate r (replicate c 0))"
  by (simp add: np_zeros_def)

lemma np_T_zeros: "np_T (np_zeros (n, j)) = np_zeros (j, n)"
proof -
  have "map (\<lambda>c. map (\<lambda>r. r ! c) (replicate n (replicate j (0::real)))) [0..<j]
        = map (\<lambda>c. replicate n 0) [0..<j]"
    by (rule map_cong) simp_all
  also have "\<dots> = replicate j (replicate n 0)"
    by (simp add: map_replicate_const)
  finally show ?thesis by (simp add: np_T_def np_zeros_def)
qed

lemma shape_np_zeros: "shape (np_zeros (r, c)) = (r, c)"
  by (simp add: shape_def np_zeros_def)

lemma allclose_zero_np_zeros: "allclose_zero (np_zeros (r, c))"
  by (simp add: allclose_zero_def np_zeros_def list_all_iff)

lemma place_encoders_noop: "place_encoders e xs = Inr xs"
  by (simp add: place_encoders_def scattered_hypersphere_def list_setattr_def)

lemma iter_Area:
  "cur_intercepts st = Area x \<Longrightarrow> adapt_pop_iter e rc a wfs ni ii st = Inl TypeError"
  by (simp add: adapt_pop_iter_def)

lemma iter_Inr:
  assumes "adapt_pop_iter e rc a wfs ni ii st = Inr st'"
  shows "(\<exists>x. cur_intercepts st' = Area x)
         \<and> (\<exists>ens. adapt_ens st' = adapt_ens st @ [ens] \<and> encoders ens = UniformHypersphere)
         \<and> error_conns st' = error_conns st @ [error_conn (filter_error a)]"
  using assms
  by (auto simp add: adapt_pop_iter_def Let_def place_encoders_noop nengo_Ensemble_def
      split: sum.splits if_splits)

lemma iter_first:
  assumes "adapt_pop_iter e rc a wfs ni 0
             \<lparr>cur_intercepts = c, adapt_ens = [], conn_learn = [], error_conns = []\<rparr> = Inr st"
  shows "\<exists>ens path tr cn.
           adapt_ens st = [ens] \<and> ens_n_neurons ens = n_neurons a
           \<and> py_index wfs 0 = Inr path
           \<and> initial_transform e path (n_neurons a) (N_JOINTS rc) = Inr tr
           \<and> learning_connection (backend a) ens (N_JOINTS rc) (pes_learning_rate a) tr = Inr cn
           \<and> conn_learn st = [cn]"
  using assms
  by (auto simp add: adapt_pop_iter_def Let_def place_encoders_noop nengo_Ensemble_def
      py_index_def split: sum.splits if_splits)

lemma loop_Area:
  "cur_intercepts st = Area x \<Longrightarrow> iis \<noteq> [] \<Longrightarrow>
   adapt_pop_loop e rc a wfs ni iis st = Inl TypeError"
  by (cases iis) (simp_all add: iter_Area)

lemma loop_two_fails:
  "isl (adapt_pop_loop e rc a wfs ni (i # i' # iis) st)"
proof (cases "adapt_pop_iter e rc a wfs ni i st")
  case (Inl err)
  then show ?thesis by simp
next
  case (Inr st')
  then obtain x where "cur_intercepts st' = Area x" using iter_Inr by blast
  then have "adapt_pop_loop e rc a wfs ni (i' # iis) st' = Inl TypeError"
    by (rule loop_Area) simp
  with Inr show ?thesis by simp
qed

lemma upt_two: "2 \<le> k \<Longrightarrow> [0..<k] = 0 # 1 # [2..<k]"
  by (simp add: upt_conv_Cons numeral_2_eq_2)

lemma init_fails_if_loop_fails:
  "isl (adapt_pop_loop e rc a (weights_paths a)
          (if use_dq a then 2 else 1) [0..<nat (n_adapt_pop a)]
          \<lparr>cur_intercepts = Bounds (intercepts a), adapt_ens = [],
             conn_learn = [], error_conns = []\<rparr>) \<Longrightarrow>
   isl (DynamicsAdaptation_init e rc a)"
  by (cases "use_dq a")
    (auto simp add: DynamicsAdaptation_init_def Let_def isl_def split: sum.splits)

lemma init_many_fails:
  "2 \<le> n_adapt_pop a \<Longrightarrow> isl (DynamicsAdaptation_init e rc a)"
proof -
  assume "2 \<le> n_adapt_pop a"
  then have "2 \<le> nat (n_adapt_pop a)" by simp
  then have u: "[0..<nat (n_adapt_pop a)] = 0 # 1 # [2..<nat (n_adapt_pop a)]"
    by (rule upt_two)
  show ?thesis
    by (rule init_fails_if_loop_fails) (simp only: u loop_two_fails)
qed

lemma loop_invariant:
  "adapt_pop_loop e rc a wfs ni iis st = Inr st' \<Longrightarrow>
   length (adapt_ens st') = length (adapt_ens st) + length iis
   \<and> (list_all (\<lambda>ens. encoders ens = UniformHypersphere) (adapt_ens st)
        \<longrightarrow> list_all (\<lambda>ens. encoders ens = UniformHypersphere) (adapt_ens st'))
   \<and> error_conns st' = error_conns st @ replicate (length iis) (error_conn (filter_error a))"
proof (induction iis arbitrary: st)
  case Nil
  then show ?case by simp
next
  case (Cons ii iis)
  from Cons.prems obtain st1 where
    s1: "adapt_pop_iter e rc a wfs ni ii st = Inr st1"
    and l1: "adapt_pop_loop e rc a wfs ni iis st1 = Inr st'"
    by (auto split: sum.splits)
  from iter_Inr [OF s1] obtain ens where
    e1: "adapt_ens st1 = adapt_ens st @ [ens]" "encoders ens = UniformHypersphere"
    and c1: "error_conns st1 = error_conns st @ [error_conn (filter_error a)]"
    by blast
  from Cons.IH [OF l1] e1 c1 show ?case
    by (simp add: replicate_append_same)
qed

lemma init_loop:
  assumes "DynamicsAdaptation_init e rc a = Inr m"
  shows "\<exists>st. adapt_pop_loop e rc a (weights_paths a) (if use_dq a then 2 else 1)
                [0..<nat (n_adapt_pop a)]
                \<lparr>cur_intercepts = Bounds (intercepts a), adapt_ens = [],
                   conn_learn = [], error_conns = []\<rparr> = Inr st
              \<and> da_adapt_ens m = adapt_ens st \<and> da_conn_learn m = conn_learn st
              \<and> da_error_conns m = error_conns st"
  using assms
  by (cases "use_dq a")
    (auto simp add: DynamicsAdaptation_init_def Let_def split: sum.splits)

lemma init_Inr:
  assumes "DynamicsAdaptation_init e rc a = Inr m"
  shows "length (da_adapt_ens m) = nat (n_adapt_pop a)
         \<and> list_all (\<lambda>ens. encoders ens = UniformHypersphere) (da_adapt_ens m)
         \<and> da_error_conns m = replicate (nat (n_adapt_pop a)) (error_conn (filter_error a))"
proof -
  from init_loop [OF assms] obtain st where
    l: "adapt_pop_loop e rc a (weights_paths a) (if use_dq a then 2 else 1)
          [0..<nat (n_adapt_pop a)]
          \<lparr>cur_intercepts = Bounds (intercepts a), adapt_ens = [],
             conn_learn = [], error_conns = []\<rparr> = Inr st"
    and m: "da_adapt_ens m = adapt_ens st" "da_error_conns m = error_conns st"
    by blast
  from loop_invariant [OF l] m show ?thesis by simp
qed

lemma init_single:
  assumes i: "DynamicsAdaptation_init e rc a = Inr m" and ii: "ii < nat (n_adapt_pop a)"
  shows "ii = 0 \<and> (\<exists>st. adapt_pop_iter e rc a (weights_paths a) (if use_dq a then 2 else 1) 0
                          \<lparr>cur_intercepts = Bounds (intercepts a), adapt_ens = [],
                             conn_learn = [], error_conns = []\<rparr> = Inr st
                        \<and> da_adapt_ens m = adapt_ens st \<and> da_conn_learn m = conn_learn st)"
proof -
  have "\<not> 2 \<le> n_adapt_pop a"
  proof
    assume "2 \<le> n_adapt_pop a"
    then have "isl (DynamicsAdaptation_init e rc a)" by (rule init_many_fails)
    with i show False by simp
  qed
  with ii have n: "nat (n_adapt_pop a) = 1" and z: "ii = 0" by simp_all
  from init_loop [OF i] obtain st where
    l: "adapt_pop_loop e rc a (weights_paths a) (if use_dq a then 2 else 1)
          [0..<nat (n_adapt_pop a)]
          \<lparr>cur_intercepts = Bounds (intercepts a), adapt_ens = [],
             conn_learn = [], error_conns = []\<rparr> = Inr st"
    and m: "da_adapt_ens m = adapt_ens st" "da_conn_learn m = conn_learn st"
    by blast
  from l have "adapt_pop_iter e rc a (weights_paths a) (if use_dq a then 2 else 1) 0
                 \<lparr>cur_intercepts = Bounds (intercepts a), adapt_ens = [],
                    conn_learn = [], error_conns = []\<rparr> = Inr st"
    by (cases "use_dq a") (simp_all add: n split: sum.splits)
  with m z show ?thesis by blast
qed

lemma init_default:
  "0 < N_JOINTS rc \<Longrightarrow>
   DynamicsAdaptation_init e rc default_args =
     Inr \<lparr>da_robot_config = rc, u_adapt = replicate (N_JOINTS rc) 0,
          da_use_dq = False, N_INPUTS = 1,
          da_adapt_ens = [\<lparr>ens_n_neurons = 1000, ens_dimensions = N_JOINTS rc,
                            ens_intercepts = AreaIntercepts (N_JOINTS rc) (Uniform 0.5 1.0),
                            ens_neuron_type = LIFRate, encoders = UniformHypersphere\<rparr>],
          da_conn_learn = [NeuronsConn (1 / 1000000) (np_zeros (N_JOINTS rc, 1000))],
          da_error_conns = [error_conn False],
          sim = NengoSimulator, da_backend = ''nengo'',
          da_q = None, da_dq = None, training_signal = None\<rparr>"
  by (simp add: DynamicsAdaptation_init_def default_args_def adapt_pop_iter_def Let_def
      place_encoders_noop py_index_def initial_transform_def isfile_def make_simulator_def
      nengo_Ensemble_def learning_connection_def nengo_PES_def weights_paths_def
      np_T_zeros shape_np_zeros)

lemma init_default_many:
  "2 \<le> n \<Longrightarrow> 0 < N_JOINTS rc \<Longrightarrow>
   DynamicsAdaptation_init e rc (default_args\<lparr>n_adapt_pop := n\<rparr>) = Inl TypeError"
proof -
  assume n: "2 \<le> n" and j: "0 < N_JOINTS rc"
  then have "2 \<le> nat n" by simp
  then have u: "[0..<nat n] = 0 # 1 # [2..<nat n]" by (rule upt_two)
  from n have r: "replicate (nat n) ([]::string) = [] # replicate (nat n - 1) []"
    by (cases "nat n") simp_all
  show ?thesis
    using j
    by (simp add: DynamicsAdaptation_init_def default_args_def Let_def u r
        adapt_pop_iter_def place_encoders_noop py_index_def initial_transform_def isfile_def
        nengo_Ensemble_def learning_connection_def nengo_PES_def weights_paths_def
        np_T_zeros shape_np_zeros)
qed

lemma init_default_spinnaker:
  "\<exists>m. DynamicsAdaptation_init env_spinnaker rc0
          (default_args\<lparr>backend := ''nengo_spinnaker''\<rparr>) = Inr m
       \<and> da_conn_learn m = [SolverConn (1 / 1000000) (np_zeros (1000, 2))]"
  by (simp add: DynamicsAdaptation_init_def default_args_def adapt_pop_iter_def Let_def
      place_encoders_noop py_index_def initial_transform_def isfile_def make_simulator_def
      nengo_Ensemble_def learning_connection_def nengo_PES_def weights_paths_def
      np_T_zeros env_spinnaker_def env0_def rc0_def)

lemma init_loaded:
  "\<exists>m. DynamicsAdaptation_init env1 rc0 loaded_args = Inr m
       \<and> da_conn_learn m = [NeuronsConn (1 / 1000000) stored_weights]"
  by (simp add: DynamicsAdaptation_init_def loaded_args_def default_args_def adapt_pop_iter_def
      Let_def place_encoders_noop py_index_def initial_transform_def isfile_def np_load_def
      make_simulator_def nengo_Ensemble_def learning_connection_def nengo_PES_def
      weights_paths_def env1_def env0_def rc0_def stored_weights_def shape_def)

section \<open>Initial weights\<close>

text \<open>
  C4. In every module that construction returns, an ensemble whose weights path is empty
  or does not denote an existing file has the all-zero matrix of shape
  \<open>(N_JOINTS, n_neurons)\<close> as its initial weight transform: the learning connection from
  its neurons carries that matrix, and on the \<open>nengo_spinnaker\<close> backend the fixed solver
  carries its transpose, the all-zero matrix of shape \<open>(n_neurons, N_JOINTS)\<close>.
\<close>

theorem zero_transform_default:
  "DynamicsAdaptation_init e rc a = Inr m \<Longrightarrow> ii < nat (n_adapt_pop a) \<Longrightarrow>
   py_index (weights_paths a) ii = Inr path \<Longrightarrow> \<not> isfile e path \<Longrightarrow>
   (\<exists>ens. py_index (da_adapt_ens m) ii = Inr ens \<and> ens_n_neurons ens = n_neurons a)
   \<and> initial_transform e path (n_neurons a) (N_JOINTS rc)
       = Inr (Array2 (N_JOINTS rc) (n_neurons a)
                (replicate (N_JOINTS rc) (replicate (n_neurons a) 0)))
   \<and> shape (np_zeros (N_JOINTS rc, n_neurons a)) = (N_JOINTS rc, n_neurons a)
   \<and> allclose_zero (np_zeros (N_JOINTS rc, n_neurons a))
   \<and> py_index (da_conn_learn m) ii =
       Inr (if backend a = ''nengo_spinnaker''
            then SolverConn (pes_learning_rate a) (np_zeros (n_neurons a, N_JOINTS rc))
            else NeuronsConn (pes_learning_rate a) (np_zeros (N_JOINTS rc, n_neurons a)))
   \<and> \<not> isfile e ''''"
proof -
  assume i: "DynamicsAdaptation_init e rc a = Inr m" and ii: "ii < nat (n_adapt_pop a)"
    and p: "py_index (weights_paths a) ii = Inr path" and nf: "\<not> isfile e path"
  from init_single [OF i ii] obtain st where
    z: "ii = 0"
    and s: "adapt_pop_iter e rc a (weights_paths a) (if use_dq a then 2 else 1) 0
              \<lparr>cur_intercepts = Bounds (intercepts a), adapt_ens = [],
                 conn_learn = [], error_conns = []\<rparr> = Inr st"
    and m: "da_adapt_ens m = adapt_ens st" "da_conn_learn m = conn_learn st"
    by blast
  from iter_first [OF s] obtain ens path' tr cn where
    f: "adapt_ens st = [ens]" "ens_n_neurons ens = n_neurons a"
       "py_index (weights_paths a) 0 = Inr path'"
       "initial_transform e path' (n_neurons a) (N_JOINTS rc) = Inr tr"
       "learning_connection (backend a) ens (N_JOINTS rc) (pes_learning_rate a) tr = Inr cn"
       "conn_learn st = [cn]"
    by blast
  from p z f(3) have pp: "path' = path" by simp
  have t: "initial_transform e path (n_neurons a) (N_JOINTS rc)
             = Inr (np_zeros (N_JOINTS rc, n_neurons a))"
    using nf by (simp add: initial_transform_def np_T_zeros)
  with f(4) pp have tr: "tr = np_zeros (N_JOINTS rc, n_neurons a)" by simp
  from f(5) have cn: "cn = (if backend a = ''nengo_spinnaker''
            then SolverConn (pes_learning_rate a) (np_zeros (n_neurons a, N_JOINTS rc))
            else NeuronsConn (pes_learning_rate a) (np_zeros (N_JOINTS rc, n_neurons a)))"
    by (auto simp add: learning_connection_def nengo_PES_def tr np_T_zeros
        split: if_splits)
  have 1: "\<exists>ens. py_index (da_adapt_ens m) ii = Inr ens \<and> ens_n_neurons ens = n_neurons a"
    using m f z by (simp add: py_index_def)
  have 2: "py_index (da_conn_learn m) ii =
       Inr (if backend a = ''nengo_spinnaker''
            then SolverConn (pes_learning_rate a) (np_zeros (n_neurons a, N_JOINTS rc))
            else NeuronsConn (pes_learning_rate a) (np_zeros (N_JOINTS rc, n_neurons a)))"
    using m f z cn by (simp add: py_index_def)
  have 3: "initial_transform e path (n_neurons a) (N_JOINTS rc)
       = Inr (Array2 (N_JOINTS rc) (n_neurons a)
                (replicate (N_JOINTS rc) (replicate (n_neurons a) 0)))"
    using t by (simp add: np_zeros_unfold)
  have 4: "shape (np_zeros (N_JOINTS rc, n_neurons a)) = (N_JOINTS rc, n_neurons a)"
    by (rule shape_np_zeros)
  have 5: "allclose_zero (np_zeros (N_JOINTS rc, n_neurons a))"
    by (rule allclose_zero_np_zeros)
  have 6: "\<not> isfile e ''''" by (simp add: isfile_def)
  from 1 2 3 4 5 6 show ?thesis by blast
qed

theorem zero_transform_default_witness:
  "(\<exists>m. DynamicsAdaptation_init env0 rc0 default_args = Inr m
        \<and> py_index (weights_paths default_args) 0 = Inr ''''
        \<and> \<not> isfile env0 ''''
        \<and> py_index (da_conn_learn m) 0
            = Inr (NeuronsConn (1 / 1000000)
                     (Array2 2 1000 (replicate 2 (replicate 1000 0)))))
   \<and> (\<exists>m. DynamicsAdaptation_init env_spinnaker rc0
             (default_args\<lparr>backend := ''nengo_spinnaker''\<rparr>) = Inr m
        \<and> py_index (da_conn_learn m) 0
            = Inr (SolverConn (1 / 1000000)
                     (Array2 1000 2 (replicate 1000 (replicate 2 0)))))"
proof -
  have j: "0 < N_JOINTS rc0" by (simp add: rc0_def)
  obtain m where i: "DynamicsAdaptation_init env0 rc0 default_args = Inr m"
    using init_default [OF j, of env0] by simp
  have n: "(0::nat) < nat (n_adapt_pop default_args)" by (simp add: default_args_def)
  have p: "py_index (weights_paths default_args) 0 = Inr ''''"
    by (simp add: weights_paths_def default_args_def py_index_def)
  have nf: "\<not> isfile env0 ''''" by (simp add: isfile_def)
  have a: "py_index (da_conn_learn m) 0
            = Inr (NeuronsConn (1 / 1000000)
                     (Array2 2 1000 (replicate 2 (replicate 1000 0))))"
    using zero_transform_default [OF i n p nf]
    by (simp add: default_args_def rc0_def np_zeros_unfold)
  obtain m' where i': "DynamicsAdaptation_init env_spinnaker rc0
             (default_args\<lparr>backend := ''nengo_spinnaker''\<rparr>) = Inr m'"
    using init_default_spinnaker by blast
  have n': "(0::nat) < nat (n_adapt_pop (default_args\<lparr>backend := ''nengo_spinnaker''\<rparr>))"
    by (simp add: default_args_def)
  have p': "py_index (weights_paths (default_args\<lparr>backend := ''nengo_spinnaker''\<rparr>)) 0
              = Inr ''''"
    by (simp add: weights_paths_def default_args_def py_index_def)
  have nf': "\<not> isfile env_spinnaker ''''" by (simp add: isfile_def)
  have b: "py_index (da_conn_learn m') 0
            = Inr (SolverConn (1 / 1000000)
                     (Array2 1000 2 (replicate 1000 (replicate 2 0))))"
    using zero_transform_default [OF i' n' p' nf']
    by (simp add: default_args_def rc0_def np_zeros_unfold)
  from i p nf a i' b show ?thesis by blast
qed

text \<open>
  C5 (as the code has it). In every module that construction returns, an ensemble whose
  weights path denotes an existing file with a non-empty sequence of snapshots under
  \<open>weights\<close> has the first matrix of the last snapshot as its initial weight transform, as
  stored and without transposition: the learning connection from its neurons carries that
  matrix unchanged, which therefore has shape \<open>(N_JOINTS, n_neurons)\<close>; only on the
  \<open>nengo_spinnaker\<close> backend does the fixed solver receive its transpose.
\<close>

theorem loaded_transform_last_snapshot:
  "DynamicsAdaptation_init e rc a = Inr m \<Longrightarrow> ii < nat (n_adapt_pop a) \<Longrightarrow>
   py_index (weights_paths a) ii = Inr path \<Longrightarrow>
   isfile e path \<Longrightarrow> files e path = Some ar \<Longrightarrow> ar ''weights'' = Some snaps \<Longrightarrow>
   snaps \<noteq> [] \<Longrightarrow> last snaps = w # ws \<Longrightarrow>
   initial_transform e path (n_neurons a) (N_JOINTS rc) = Inr w
   \<and> py_index (da_conn_learn m) ii =
       Inr (if backend a = ''nengo_spinnaker''
            then SolverConn (pes_learning_rate a) (np_T w)
            else NeuronsConn (pes_learning_rate a) w)
   \<and> (backend a \<noteq> ''nengo_spinnaker'' \<longrightarrow> shape w = (N_JOINTS rc, n_neurons a))"
proof -
  assume i: "DynamicsAdaptation_init e rc a = Inr m" and ii: "ii < nat (n_adapt_pop a)"
    and p: "py_index (weights_paths a) ii = Inr path"
    and h: "isfile e path" "files e path = Some ar" "ar ''weights'' = Some snaps"
      "snaps \<noteq> []" "last snaps = w # ws"
  from init_single [OF i ii] obtain st where
    z: "ii = 0"
    and s: "adapt_pop_iter e rc a (weights_paths a) (if use_dq a then 2 else 1) 0
              \<lparr>cur_intercepts = Bounds (intercepts a), adapt_ens = [],
                 conn_learn = [], error_conns = []\<rparr> = Inr st"
    and m: "da_adapt_ens m = adapt_ens st" "da_conn_learn m = conn_learn st"
    by blast
  from iter_first [OF s] obtain ens path' tr cn where
    f: "adapt_ens st = [ens]" "ens_n_neurons ens = n_neurons a"
       "py_index (weights_paths a) 0 = Inr path'"
       "initial_transform e path' (n_neurons a) (N_JOINTS rc) = Inr tr"
       "learning_connection (backend a) ens (N_JOINTS rc) (pes_learning_rate a) tr = Inr cn"
       "conn_learn st = [cn]"
    by blast
  from p z f(3) have pp: "path' = path" by simp
  have t: "initial_transform e path (n_neurons a) (N_JOINTS rc) = Inr w"
    using h by (simp add: initial_transform_def np_load_def py_index_def)
  with f(4) pp have tr: "tr = w" by simp
  from f(5) have cn: "cn = (if backend a = ''nengo_spinnaker''
            then SolverConn (pes_learning_rate a) (np_T w)
            else NeuronsConn (pes_learning_rate a) w)
          \<and> (backend a \<noteq> ''nengo_spinnaker'' \<longrightarrow> shape w = (N_JOINTS rc, n_neurons a))"
    by (auto simp add: learning_connection_def nengo_PES_def tr f(2) split: if_splits)
  have 2: "py_index (da_conn_learn m) ii = Inr cn"
    using m f z by (simp add: py_index_def)
  show ?thesis using 2 t cn by simp
qed

theorem loaded_transform_last_snapshot_witness:
  "(\<exists>m. DynamicsAdaptation_init env1 rc0 loaded_args = Inr m
        \<and> py_index (weights_paths loaded_args) 0 = Inr ''weights.npz''
        \<and> isfile env1 ''weights.npz''
        \<and> py_index (da_conn_learn m) 0 = Inr (NeuronsConn (1 / 1000000) stored_weights)
        \<and> shape stored_weights = (2, 3))"
proof -
  obtain m where i: "DynamicsAdaptation_init env1 rc0 loaded_args = Inr m"
    using init_loaded by blast
  have n: "(0::nat) < nat (n_adapt_pop loaded_args)"
    by (simp add: loaded_args_def default_args_def)
  have p: "py_index (weights_paths loaded_args) 0 = Inr ''weights.npz''"
    by (simp add: weights_paths_def loaded_args_def default_args_def py_index_def)
  have f: "isfile env1 ''weights.npz''" by (simp add: isfile_def env1_def env0_def)
  have g: "files env1 ''weights.npz''
             = Some [''weights'' \<mapsto> [[older_weights], [stored_weights]]]"
    by (simp add: env1_def env0_def)
  have "py_index (da_conn_learn m) 0 = Inr (NeuronsConn (1 / 1000000) stored_weights)
        \<and> shape stored_weights = (2, 3)"
    using loaded_transform_last_snapshot
      [OF i n p f g, of "[[older_weights], [stored_weights]]" stored_weights "[]"]
    by (simp add: loaded_args_def default_args_def rc0_def)
  with i p f show ?thesis by blast
qed

text \<open>
  The loaded matrix is not transposed: a stored \<open>2 \<times> 3\<close> matrix is the initial transform as
  it stands, and its transpose is a different array.
\<close>

theorem loaded_transform_not_transposed_counterexample:
  "initial_transform env1 ''weights.npz'' 3 2 = Inr stored_weights
   \<and> initial_transform env1 ''weights.npz'' 3 2 \<noteq> Inr (np_T stored_weights)"
  by (simp add: initial_transform_def isfile_def env1_def env0_def np_load_def py_index_def
      stored_weights_def np_T_def)

section \<open>Backend selection\<close>

lemma init_fails_if_simulator_fails:
  "make_simulator e (backend a) = Inl err \<Longrightarrow> isl (DynamicsAdaptation_init e rc a)"
  by (simp add: DynamicsAdaptation_init_def Let_def split: sum.splits)

text \<open>
  C6. For every backend name that is not one of \<open>nengo\<close>, \<open>nengo_ocl\<close>, \<open>nengo_spinnaker\<close>,
  and for \<open>nengo_ocl\<close> or \<open>nengo_spinnaker\<close> when its package is not installed, choosing the
  simulator raises an exception with the corresponding message, and construction fails:
  no simulator of another backend is substituted.
\<close>

theorem backend_errors_fatal:
  "bk \<notin> {''nengo'', ''nengo_ocl'', ''nengo_spinnaker''}
     \<or> (bk = ''nengo_ocl'' \<and> \<not> nengo_ocl_installed e)
     \<or> (bk = ''nengo_spinnaker'' \<and> \<not> nengo_spinnaker_installed e) \<Longrightarrow>
   make_simulator e bk =
     Inl (Exception (if bk = ''nengo_ocl''
                     then ''Nengo OCL not installed, cannot use this backend.''
                     else if bk = ''nengo_spinnaker''
                     then ''Nengo SpiNNaker not installed, cannot use this backend.''
                     else ''Invalid backend specified''))
   \<and> isl (DynamicsAdaptation_init e rc (a\<lparr>backend := bk\<rparr>))"
proof -
  assume h: "bk \<notin> {''nengo'', ''nengo_ocl'', ''nengo_spinnaker''}
     \<or> (bk = ''nengo_ocl'' \<and> \<not> nengo_ocl_installed e)
     \<or> (bk = ''nengo_spinnaker'' \<and> \<not> nengo_spinnaker_installed e)"
  let ?msg = "if bk = ''nengo_ocl''
              then ''Nengo OCL not installed, cannot use this backend.''
              else if bk = ''nengo_spinnaker''
              then ''Nengo SpiNNaker not installed, cannot use this backend.''
              else ''Invalid backend specified''"
  have m: "make_simulator e bk = Inl (Exception ?msg)"
    using h by (auto simp add: make_simulator_def)
  then have "make_simulator e (backend (a\<lparr>backend := bk\<rparr>)) = Inl (Exception ?msg)" by simp
  then have "isl (DynamicsAdaptation_init e rc (a\<lparr>backend := bk\<rparr>))"
    by (rule init_fails_if_simulator_fails)
  with m show ?thesis by simp
qed

theorem backend_errors_fatal_witness:
  "''nengo_dl'' \<notin> {''nengo'', ''nengo_ocl'', ''nengo_spinnaker''}
   \<and> make_simulator env0 ''nengo_dl'' = Inl (Exception ''Invalid backend specified'')
   \<and> isl (DynamicsAdaptation_init env0 rc0 (default_args\<lparr>backend := ''nengo_dl''\<rparr>))
   \<and> \<not> nengo_ocl_installed env0
   \<and> make_simulator env0 ''nengo_ocl''
       = Inl (Exception ''Nengo OCL not installed, cannot use this backend.'')
   \<and> isl (DynamicsAdaptation_init env0 rc0 (default_args\<lparr>backend := ''nengo_ocl''\<rparr>))"
proof -
  have a: "''nengo_dl'' \<notin> {''nengo'', ''nengo_ocl'', ''nengo_spinnaker''}" by simp
  have b: "\<not> nengo_ocl_installed env0" by (simp add: env0_def)
  show ?thesis
    using a b backend_errors_fatal [of "''nengo_dl''" env0 rc0 default_args]
      backend_errors_fatal [of "''nengo_ocl''" env0 rc0 default_args]
    by simp
qed

section \<open>Sign of the training signal\<close>

lemma conn_signal_error_conn:
  "conn_signal (error_conn fe) ts = map uminus (gate_error fe ts)"
  by (simp add: conn_signal_def error_conn_def)

text \<open>
  C7. In every simulation step of a constructed module, the training signal given to
  \<open>generate\<close> reaches each PES learning rule multiplied by \<open>-1\<close>, after the optional
  gating: every error connection presents the negated (gated) training signal.
\<close>

theorem error_sign_inverted:
  "DynamicsAdaptation_init e rc a = Inr m \<Longrightarrow>
   learning_rule_inputs (generate_store m q dq ts)
     = Inr (replicate (nat (n_adapt_pop a)) (map uminus (gate_error (filter_error a) ts)))
   \<and> (\<not> filter_error a \<longrightarrow>
        learning_rule_inputs (generate_store m q dq ts)
          = Inr (replicate (nat (n_adapt_pop a)) (map uminus ts)))"
proof -
  assume i: "DynamicsAdaptation_init e rc a = Inr m"
  from init_Inr [OF i] have
    c: "da_error_conns m = replicate (nat (n_adapt_pop a)) (error_conn (filter_error a))"
    by simp
  have "learning_rule_inputs (generate_store m q dq ts)
          = Inr (replicate (nat (n_adapt_pop a)) (map uminus (gate_error (filter_error a) ts)))"
    by (simp add: learning_rule_inputs_def generate_store_def u_input_def c
        conn_signal_error_conn)
  then show ?thesis by (simp add: gate_error_def)
qed

theorem error_sign_inverted_witness:
  "(\<exists>m. DynamicsAdaptation_init env0 rc0 default_args = Inr m
        \<and> learning_rule_inputs (generate_store m [0, 0] [0, 0] [1, 1]) = Inr [[- 1, - 1]])"
proof -
  have j: "0 < N_JOINTS rc0" by (simp add: rc0_def)
  obtain m where i: "DynamicsAdaptation_init env0 rc0 default_args = Inr m"
    using init_default [OF j, of env0] by simp
  have "learning_rule_inputs (generate_store m [0, 0] [0, 0] [1, 1]) = Inr [[- 1, - 1]]"
    using error_sign_inverted [OF i, of "[0, 0]" "[0, 0]" "[1, 1]"]
    by (simp add: default_args_def gate_error_def)
  with i show ?thesis by blast
qed

section \<open>Encoder placement\<close>

text \<open>
  C9 (what the code does). With the placement utility installed, constructing the default
  module leaves the ensemble with the independent random placement it was created with:
  the assignment of lines 135 to 137 targets the list of ensembles, raises
  \<open>AttributeError\<close>, and the handler discards it.
\<close>

theorem encoders_stay_default:
  "nengolib_installed env0
   \<and> (\<exists>m. DynamicsAdaptation_init env0 rc0 default_args = Inr m
          \<and> map encoders (da_adapt_ens m) = [UniformHypersphere])"
  by (simp add: init_default env0_def rc0_def)

section \<open>More than one adaptive population\<close>

text \<open>
  C10. For every construction with \<open>n_adapt_pop \<ge> 2\<close>, construction fails: a first
  iteration that succeeds leaves the distribution object in \<open>intercepts\<close>, and the second
  iteration raises \<open>TypeError\<close> on indexing it (with the other arguments at their defaults
  and a robot with at least one joint this is the error returned). A module with at least
  one adaptive population is obtained only for \<open>n_adapt_pop = 1\<close>, and the default
  arguments do yield one for a robot with at least one joint.
\<close>

theorem multiple_populations_fail:
  "(2 \<le> n_adapt_pop a \<longrightarrow> isl (DynamicsAdaptation_init e rc a))
   \<and> (adapt_pop_iter e rc a wfs ni 0 st = Inr st' \<longrightarrow>
        adapt_pop_iter e rc a wfs ni 1 st' = Inl TypeError)
   \<and> (2 \<le> n \<and> 0 < N_JOINTS rc \<longrightarrow>
        DynamicsAdaptation_init e rc (default_args\<lparr>n_adapt_pop := n\<rparr>) = Inl TypeError)
   \<and> ((\<exists>m. DynamicsAdaptation_init e rc a = Inr m \<and> da_adapt_ens m \<noteq> [])
        \<longrightarrow> n_adapt_pop a = 1)
   \<and> (0 < N_JOINTS rc \<longrightarrow>
        (\<exists>m. DynamicsAdaptation_init e rc default_args = Inr m
             \<and> length (da_adapt_ens m) = 1))"
proof (intro conjI impI)
  assume "2 \<le> n_adapt_pop a"
  then show "isl (DynamicsAdaptation_init e rc a)" by (rule init_many_fails)
next
  assume "adapt_pop_iter e rc a wfs ni 0 st = Inr st'"
  then obtain x where "cur_intercepts st' = Area x" using iter_Inr by blast
  then show "adapt_pop_iter e rc a wfs ni 1 st' = Inl TypeError" by (rule iter_Area)
next
  assume "2 \<le> n \<and> 0 < N_JOINTS rc"
  then show "DynamicsAdaptation_init e rc (default_args\<lparr>n_adapt_pop := n\<rparr>) = Inl TypeError"
    by (simp add: init_default_many)
next
  assume "\<exists>m. DynamicsAdaptation_init e rc a = Inr m \<and> da_adapt_ens m \<noteq> []"
  then obtain m where m: "DynamicsAdaptation_init e rc a = Inr m" "da_adapt_ens m \<noteq> []"
    by blast
  from init_Inr [OF m(1)] m(2) have pos: "1 \<le> n_adapt_pop a" by (cases "n_adapt_pop a \<le> 0") auto
  have "\<not> 2 \<le> n_adapt_pop a"
  proof
    assume "2 \<le> n_adapt_pop a"
    then have "isl (DynamicsAdaptation_init e rc a)" by (rule init_many_fails)
    with m(1) show False by simp
  qed
  with pos show "n_adapt_pop a = 1" by simp
next
  assume "0 < N_JOINTS rc"
  then show "\<exists>m. DynamicsAdaptation_init e rc default_args = Inr m
                \<and> length (da_adapt_ens m) = 1"
    by (simp add: init_default)
qed

theorem multiple_populations_fail_witness:
  "2 \<le> n_adapt_pop (default_args\<lparr>n_adapt_pop := 2\<rparr>)
   \<and> isl (DynamicsAdaptation_init env0 rc0 (default_args\<lparr>n_adapt_pop := 2\<rparr>))
   \<and> DynamicsAdaptation_init env0 rc0 (default_args\<lparr>n_adapt_pop := 2\<rparr>) = Inl TypeError
   \<and> (\<exists>m. DynamicsAdaptation_init env0 rc0 default_args = Inr m \<and> da_adapt_ens m \<noteq> [])
   \<and> n_adapt_pop default_args = 1"
proof -
  have j: "0 < N_JOINTS rc0" by (simp add: rc0_def)
  have e: "\<exists>m. DynamicsAdaptation_init env0 rc0 default_args = Inr m \<and> da_adapt_ens m \<noteq> []"
    using j by (simp add: init_default)
  show ?thesis
    using multiple_populations_fail
      [of "default_args\<lparr>n_adapt_pop := 2\<rparr>" env0 rc0 "[]" 0
          "\<lparr>cur_intercepts = Bounds [], adapt_ens = [], conn_learn = [], error_conns = []\<rparr>"
          "\<lparr>cur_intercepts = Bounds [], adapt_ens = [], conn_learn = [], error_conns = []\<rparr>" 2]
      multiple_populations_fail
      [of default_args env0 rc0 "[]" 0
          "\<lparr>cur_intercepts = Bounds [], adapt_ens = [], conn_learn = [], error_conns = []\<rparr>"
          "\<lparr>cur_intercepts = Bounds [], adapt_ens = [], conn_learn = [], error_conns = []\<rparr>" 2]
      e j
    by simp
qed

end
